theory Spec2Isabelle
  imports Complex_Main "HOL-Library.Log_Nat"
begin

section \<open>StackSave backend: ledger store, streaks, portfolio allocations, APY cache\<close>

text \<open>
  The route handlers of \<^verbatim>\<open>src/routes/deposits.js\<close>, \<^verbatim>\<open>src/routes/portfolio.js\<close>
  (which also carries the withdrawal handler) and the APY service are embedded as
  functions on an explicit database value. Each handler that opens a transaction is
  written as a body returning \<open>error + (result \<times> db)\<close> and a wrapper that keeps the
  old database on \<open>Inl\<close> (ROLLBACK) and the new one on \<open>Inr\<close> (COMMIT).

  Conventions of the embedding.
  \<^item> A \<^verbatim>\<open>DECIMAL(p, 6)\<close> column (\<^verbatim>\<open>db/schema.sql\<close>) is an integer counting millionths:
    \<open>150000000\<close> is 150.000000. A value that does not fit the precision of its column
    makes the statement fail (numeric field overflow), as does an \<^verbatim>\<open>INTEGER\<close> out of
    range and a string longer than its \<^verbatim>\<open>VARCHAR\<close> column.
  \<^item> A request amount is a JavaScript number. It is given by the decimal text that the
    database driver sends for it, a fixed-point value like the columns; the comparisons
    of the handler see its double, \<open>js_number\<close>. \<^verbatim>\<open>parseFloat\<close> of a stored decimal is
    the nearest double, \<open>parseFloat\<close>. Doubles are rationals rounded to 53 significant
    bits, ties to even; exponent range, infinities and NaN are left out.
  \<^item> UUID keys are natural numbers; a fresh key is drawn from the counter \<open>next_id\<close>.
  \<^item> A calendar date \<^verbatim>\<open>YYYY-MM-DD\<close> is its day number, so that the whole-day difference
    of two dates is a subtraction. The handlers take the UTC date of
    \<^verbatim>\<open>new Date().toISOString()\<close> as the parameter \<open>today\<close>, and the offset of the server's
    time zone, in minutes east of UTC, as the parameter \<open>zone\<close>.
  \<^item> Foreign-key and CHECK constraints and the triggers of the schema are applied where
    the statement runs; a failing statement yields \<open>StoreError\<close>.
\<close>

subsection \<open>Fixed-point amounts and column types\<close>

type_synonym money = int
type_synonym uuid = nat
type_synonym day = int

definition of_decimal6 :: "money \<Rightarrow> rat" where
  "of_decimal6 m = of_int m / 1000000"

definition round_half_away :: "rat \<Rightarrow> int" where
  "round_half_away x = (if 0 \<le> x then \<lfloor>x + 1 / 2\<rfloor> else - \<lfloor>- x + 1 / 2\<rfloor>)"

text \<open>A numeric value assigned to a column of scale 6 is rounded half away from zero.\<close>

definition to_decimal6 :: "rat \<Rightarrow> money" where
  "to_decimal6 x = round_half_away (x * 1000000)"

text \<open>
  \<^verbatim>\<open>DECIMAL(p, 6)\<close> holds fewer than \<open>p\<close> digits in all: \<open>fits_decimal 18\<close> is the range of
  \<^verbatim>\<open>DECIMAL(18, 6)\<close>, \<open>fits_decimal 10\<close> that of \<^verbatim>\<open>DECIMAL(10, 6)\<close>.
\<close>

definition fits_decimal :: "nat \<Rightarrow> money \<Rightarrow> bool" where
  "fits_decimal p m = (\<bar>m\<bar> < 10 ^ p)"

definition fits_integer :: "int \<Rightarrow> bool" where
  "fits_integer n = (- 2147483648 \<le> n \<and> n \<le> 2147483647)"

definition varchar_ok :: "nat \<Rightarrow> string option \<Rightarrow> bool" where
  "varchar_ok n x = (case x of None \<Rightarrow> True | Some s \<Rightarrow> length s \<le> n)"

subsection \<open>JavaScript numbers\<close>

text \<open>
  \<open>to_double\<close> rounds a rational to the nearest double: \<open>ilog2\<close> is the binary exponent,
  the unit in the last place is \<open>2 powi (ilog2 \<bar>x\<bar> - 52)\<close>, and the quotient is rounded to
  an integer with ties to even.
\<close>

definition round_half_even :: "rat \<Rightarrow> int" where
  "round_half_even x =
     (let f = \<lfloor>x\<rfloor>; r = x - of_int f
      in if r < 1 / 2 then f else if 1 / 2 < r then f + 1 else if even f then f else f + 1)"

definition ilog2 :: "rat \<Rightarrow> int" where
  "ilog2 x =
     (case quotient_of x of
        (p, q) \<Rightarrow> let k = bitlen p - bitlen q in if 2 powi k \<le> x then k else k - 1)"

definition to_double :: "rat \<Rightarrow> rat" where
  "to_double x =
     (if x = 0 then 0
      else let ulp = 2 powi (ilog2 \<bar>x\<bar> - 52)
           in of_int (round_half_even (x / ulp)) * ulp)"


definition parseFloat :: "money \<Rightarrow> rat" where
  "parseFloat m = to_double (of_decimal6 m)"

definition js_number :: "money \<Rightarrow> rat" where
  "js_number m = to_double (of_decimal6 m)"

text \<open>
  \<open>js_text\<close> is the decimal that \<^verbatim>\<open>String(x)\<close> writes for a double \<open>x\<close>, which is what the
  driver sends for a number parameter: the decimal with the fewest significant digits
  that rounds to \<open>x\<close>, the closest to \<open>x\<close> if there are several, the even one on a tie.
  A double needs at most 17 digits.
\<close>

definition ilog10 :: "rat \<Rightarrow> int" where
  "ilog10 x =
     (let k = (ilog2 x * 1233) div 4096
      in if 10 powi (k + 1) \<le> x then k + 1 else if 10 powi k \<le> x then k else k - 1)"

definition digits_candidates :: "rat \<Rightarrow> nat \<Rightarrow> rat list" where
  "digits_candidates a k =
     (let p = 10 powi (ilog10 a + 1 - int k);
          s = \<lfloor>a / p\<rfloor>;
          lo = of_int s * p;
          hi = of_int (s + 1) * p;
          ok_lo = (to_double lo = a);
          ok_hi = (to_double hi = a)
      in if ok_lo \<and> ok_hi then
           (if a - lo < hi - a then [lo]
            else if hi - a < a - lo then [hi]
            else if even s then [lo] else [hi])
         else if ok_lo then [lo]
         else if ok_hi then [hi]
         else [])"

fun shortest_decimal :: "rat \<Rightarrow> nat list \<Rightarrow> rat" where
  "shortest_decimal a [] = a"
| "shortest_decimal a (k # ks) =
     (case digits_candidates a k of [] \<Rightarrow> shortest_decimal a ks | c # _ \<Rightarrow> c)"

definition js_text :: "rat \<Rightarrow> rat" where
  "js_text x =
     (if x = 0 then 0
      else if 0 < x then shortest_decimal x [1..<18]
      else - shortest_decimal (- x) [1..<18])"

subsection \<open>Tables (db/schema.sql)\<close>

datatype error = ValidationError | NotFoundError | InsufficientBalanceError | StoreError

datatype status = pending | confirmed | failed

datatype txn_type = deposit | withdrawal | transfer | earnings

record user =
  total_balance :: money
  total_earnings :: money

record savings_goal =
  goal_user :: uuid
  title :: string
  target_amount :: money
  current_amount :: money
  is_completed :: bool

record deposit_row =
  dep_id :: uuid
  dep_user :: uuid
  dep_goal :: "uuid option"
  dep_amount :: money
  dep_payment_method :: "uuid option"
  dep_hash :: "string option"
  dep_status :: status

record transaction_row =
  txn_id :: uuid
  txn_user :: uuid
  txn_type :: txn_type
  txn_amount :: money
  txn_description :: string
  txn_hash :: "string option"
  txn_status :: status

record streak =
  current_streak :: int
  longest_streak :: int
  last_deposit_date :: "day option"
  total_deposits :: int

record daily_growth_row =
  growth_percentage :: money
  growth_earnings :: money
  has_deposit :: bool

record pool_allocation =
  alloc_id :: uuid
  alloc_user :: uuid
  pool_type :: string
  protocol_id :: string
  protocol_name :: string
  protocol_address :: "string option"
  amount_allocated :: money
  current_apy :: money
  alloc_total_earnings :: money
  daily_earnings :: money

text \<open>One element of the \<^verbatim>\<open>allocations\<close> array of an allocate request.\<close>

record allocation_entry =
  poolType :: string
  protocolId :: string
  protocolName :: string
  protocolAddress :: "string option"
  amount :: money
  percentage :: money
  apy :: money

record allocation_history_row =
  hist_user :: uuid
  hist_deposit :: "uuid option"
  hist_deposit_amount :: money
  hist_allocations :: "allocation_entry list"
  hist_user_mode :: string

record db =
  users :: "uuid \<rightharpoonup> user"
  savings_goals :: "uuid \<rightharpoonup> savings_goal"
  payment_methods :: "uuid set"
  deposits :: "deposit_row list"
  transactions :: "transaction_row list"
  streaks :: "uuid \<rightharpoonup> streak"
  daily_growth :: "(uuid \<times> day) \<rightharpoonup> daily_growth_row"
  pool_allocations :: "pool_allocation list"
  allocation_history :: "allocation_history_row list"
  next_id :: uuid

text \<open>The transaction wrapper: COMMIT keeps the new database, ROLLBACK the old one.\<close>

definition transactional :: "db \<Rightarrow> error + ('a \<times> db) \<Rightarrow> (error + 'a) \<times> db" where
  "transactional d r = (case r of Inl e \<Rightarrow> (Inl e, d) | Inr (x, d') \<Rightarrow> (Inr x, d'))"

text \<open>JavaScript \<^verbatim>\<open>x || dflt\<close> on an optional string: undefined and the empty string are falsy.\<close>

definition js_or :: "string option \<Rightarrow> string \<Rightarrow> string" where
  "js_or x dflt = (case x of None \<Rightarrow> dflt | Some s \<Rightarrow> if s = [] then dflt else s)"

definition js_or_null :: "string option \<Rightarrow> string option" where
  "js_or_null x = (case x of None \<Rightarrow> None | Some s \<Rightarrow> if s = [] then None else Some s)"

definition and_then :: "error + 'a \<Rightarrow> ('a \<Rightarrow> error + 'b) \<Rightarrow> error + 'b" where
  "and_then r f = (case r of Inl e \<Rightarrow> Inl e | Inr x \<Rightarrow> f x)"

subsection \<open>Streak step of the deposit handler (deposits.js, lines 123--155)\<close>

text \<open>
  The driver hands a \<^verbatim>\<open>DATE\<close> column to the handler as a JavaScript \<^verbatim>\<open>Date\<close> at local
  midnight, and \<^verbatim>\<open>new Date(streak.last_deposit_date).toISOString().split('T')[0]\<close> is the
  UTC date of that instant: the stored date in a zone at or west of UTC, the day before
  in a zone east of UTC.
\<close>

definition read_back_date :: "int \<Rightarrow> day \<Rightarrow> day" where
  "read_back_date zone stored = (if 0 < zone then stored - 1 else stored)"

text \<open>The row that the \<^verbatim>\<open>UPDATE streaks\<close> of the handler writes; \<open>None\<close> when it is not run.\<close>

definition streak_update :: "int \<Rightarrow> streak \<Rightarrow> day \<Rightarrow> streak option" where
  "streak_update zone s today =
     (let lastDepositDate = map_option (read_back_date zone) (last_deposit_date s);
          newStreak = current_streak s
      in if lastDepositDate = None \<or> lastDepositDate \<noteq> Some today then
           let newStreak' =
                 (case lastDepositDate of
                    Some l \<Rightarrow>
                      (let daysDiff = today - l
                       in if daysDiff = 1 then newStreak + 1
                          else if daysDiff > 1 then 1
                          else newStreak)
                  | None \<Rightarrow> 1);
               longestStreak = max newStreak' (longest_streak s)
           in Some (s\<lparr>current_streak := newStreak', longest_streak := longestStreak,
                      last_deposit_date := Some today,
                      total_deposits := total_deposits s + 1\<rparr>)
         else None)"

subsection \<open>POST /api/deposits/:userId (deposits.js, lines 58--199)\<close>

definition goal_top_up :: "money \<Rightarrow> savings_goal \<Rightarrow> savings_goal" where
  "goal_top_up amt g =
     (let g' = g\<lparr>current_amount := current_amount g + amt\<rparr>
      in if parseFloat (current_amount g') \<ge> parseFloat (target_amount g')
         then g'\<lparr>is_completed := True\<rparr> else g')"

definition deposit_goal_step :: "money \<Rightarrow> uuid option \<Rightarrow> db \<Rightarrow> error + db" where
  "deposit_goal_step amt goalId d =
     (case goalId of
        None \<Rightarrow> Inr d
      | Some g \<Rightarrow>
          (case savings_goals d g of
             None \<Rightarrow> Inr d
           | Some r \<Rightarrow>
               if \<not> fits_decimal 18 (current_amount r + amt) then Inl StoreError
               else Inr (d\<lparr>savings_goals := (savings_goals d)(g \<mapsto> goal_top_up amt r)\<rparr>)))"

definition deposit_balance_step :: "uuid \<Rightarrow> money \<Rightarrow> db \<Rightarrow> error + db" where
  "deposit_balance_step userId amt d =
     (case users d userId of
        None \<Rightarrow> Inr d
      | Some u \<Rightarrow>
          if \<not> fits_decimal 18 (total_balance u + amt) then Inl StoreError
          else Inr (d\<lparr>users :=
                       (users d)(userId \<mapsto> u\<lparr>total_balance := total_balance u + amt\<rparr>)\<rparr>))"

definition deposit_streak_step :: "int \<Rightarrow> uuid \<Rightarrow> day \<Rightarrow> db \<Rightarrow> error + db" where
  "deposit_streak_step zone userId today d =
     (case streaks d userId of
        None \<Rightarrow> Inr d
      | Some s \<Rightarrow>
          (case streak_update zone s today of
             None \<Rightarrow> Inr d
           | Some s' \<Rightarrow>
               if fits_integer (current_streak s') \<and> fits_integer (longest_streak s')
                  \<and> fits_integer (total_deposits s')
               then Inr (d\<lparr>streaks := (streaks d)(userId \<mapsto> s')\<rparr>)
               else Inl StoreError))"

definition deposit_description :: "db \<Rightarrow> uuid option \<Rightarrow> string" where
  "deposit_description d goalId =
     ''Deposit'' @ (case goalId of
                      None \<Rightarrow> ''''
                    | Some g \<Rightarrow> '' to '' @ (case savings_goals d g of
                                               Some r \<Rightarrow> title r
                                             | None \<Rightarrow> ''undefined''))"

definition daily_growth_mark :: "daily_growth_row option \<Rightarrow> daily_growth_row" where
  "daily_growth_mark r =
     (case r of
        None \<Rightarrow> \<lparr>growth_percentage = 0, growth_earnings = 0, has_deposit = True\<rparr>
      | Some g \<Rightarrow> g\<lparr>has_deposit := True\<rparr>)"

definition RecordDeposit_tx ::
  "int \<Rightarrow> db \<Rightarrow> day \<Rightarrow> uuid \<Rightarrow> uuid option \<Rightarrow> money \<Rightarrow> uuid option \<Rightarrow> string option
     \<Rightarrow> error + (deposit_row \<times> db)" where
  "RecordDeposit_tx zone d today userId goalId amt paymentMethodId transactionHash =
     (if users d userId = None then Inl StoreError
      else if (case goalId of None \<Rightarrow> False | Some g \<Rightarrow> savings_goals d g = None)
        then Inl StoreError
      else if (case paymentMethodId of None \<Rightarrow> False | Some p \<Rightarrow> p \<notin> payment_methods d)
        then Inl StoreError
      else if \<not> fits_decimal 18 amt then Inl StoreError
      else if \<not> varchar_ok 255 (js_or_null transactionHash) then Inl StoreError
      else
        let dep = \<lparr>dep_id = next_id d, dep_user = userId, dep_goal = goalId,
                   dep_amount = amt, dep_payment_method = paymentMethodId,
                   dep_hash = js_or_null transactionHash, dep_status = confirmed\<rparr>;
            d1 = d\<lparr>deposits := deposits d @ [dep], next_id := next_id d + 1\<rparr>
        in and_then (deposit_goal_step amt goalId d1) (\<lambda>d2.
           and_then (deposit_balance_step userId amt d2) (\<lambda>d3.
           and_then (deposit_streak_step zone userId today d3) (\<lambda>d4.
             let d5 = d4\<lparr>daily_growth :=
                           (daily_growth d4)((userId, today) \<mapsto>
                              daily_growth_mark (daily_growth d4 (userId, today)))\<rparr>;
                 txn = \<lparr>txn_id = next_id d5, txn_user = userId, txn_type = deposit,
                        txn_amount = amt, txn_description = deposit_description d5 goalId,
                        txn_hash = js_or_null transactionHash, txn_status = confirmed\<rparr>;
                 d6 = d5\<lparr>transactions := transactions d5 @ [txn],
                         next_id := next_id d5 + 1\<rparr>
             in Inr (dep, d6)))))"

definition RecordDeposit ::
  "int \<Rightarrow> db \<Rightarrow> day \<Rightarrow> uuid \<Rightarrow> uuid option \<Rightarrow> money \<Rightarrow> uuid option \<Rightarrow> string option
     \<Rightarrow> (error + deposit_row) \<times> db" where
  "RecordDeposit zone d today userId goalId amt paymentMethodId transactionHash =
     (if js_number amt \<le> 0 then (Inl ValidationError, d)
      else transactional d
             (RecordDeposit_tx zone d today userId goalId amt paymentMethodId
                transactionHash))"



subsection \<open>POST /api/transactions/:userId/withdrawal (portfolio.js, lines 767--841)\<close>

text \<open>
  The handler in two parts, divided where it first awaits the store after the balance
  comparison: the \<^verbatim>\<open>SELECT total_balance\<close> with the comparison of two doubles, and the
  \<^verbatim>\<open>INSERT INTO transactions\<close> with the \<^verbatim>\<open>UPDATE users\<close> and the COMMIT.
\<close>

definition withdrawal_check :: "db \<Rightarrow> uuid \<Rightarrow> money \<Rightarrow> error option" where
  "withdrawal_check d userId amt =
     (case users d userId of
        None \<Rightarrow> Some NotFoundError
      | Some u \<Rightarrow>
          let currentBalance = parseFloat (total_balance u)
          in if currentBalance < js_number amt then Some InsufficientBalanceError else None)"

definition withdrawal_write ::
  "db \<Rightarrow> uuid \<Rightarrow> money \<Rightarrow> string option \<Rightarrow> string option \<Rightarrow> string option
     \<Rightarrow> error + (transaction_row \<times> db)" where
  "withdrawal_write d userId amt description transactionHash withdrawalAddress =
     (if users d userId = None then Inl StoreError
      else if \<not> fits_decimal 18 amt then Inl StoreError
      else if \<not> varchar_ok 255 (js_or_null transactionHash) then Inl StoreError
      else
        let txn = \<lparr>txn_id = next_id d, txn_user = userId, txn_type = withdrawal,
                   txn_amount = amt,
                   txn_description =
                     js_or description
                       (''Withdrawal to '' @ js_or withdrawalAddress ''external wallet''),
                   txn_hash = js_or_null transactionHash, txn_status = confirmed\<rparr>;
            d1 = d\<lparr>transactions := transactions d @ [txn], next_id := next_id d + 1\<rparr>
        in (case users d1 userId of
              None \<Rightarrow> Inr (txn, d1)
            | Some u \<Rightarrow>
                if \<not> fits_decimal 18 (total_balance u - amt) then Inl StoreError
                else Inr (txn,
                          d1\<lparr>users :=
                               (users d1)(userId \<mapsto>
                                  u\<lparr>total_balance := total_balance u - amt\<rparr>)\<rparr>)))"

definition RecordWithdrawal_tx ::
  "db \<Rightarrow> uuid \<Rightarrow> money \<Rightarrow> string option \<Rightarrow> string option \<Rightarrow> string option
     \<Rightarrow> error + (transaction_row \<times> db)" where
  "RecordWithdrawal_tx d userId amt description transactionHash withdrawalAddress =
     (case withdrawal_check d userId amt of
        Some e \<Rightarrow> Inl e
      | None \<Rightarrow> withdrawal_write d userId amt description transactionHash withdrawalAddress)"

definition RecordWithdrawal ::
  "db \<Rightarrow> uuid \<Rightarrow> money \<Rightarrow> string option \<Rightarrow> string option \<Rightarrow> string option
     \<Rightarrow> (error + transaction_row) \<times> db" where
  "RecordWithdrawal d userId amt description transactionHash withdrawalAddress =
     (if js_number amt \<le> 0 then (Inl ValidationError, d)
      else transactional d
             (RecordWithdrawal_tx d userId amt description transactionHash withdrawalAddress))"

subsection \<open>Withdrawal requests served at the same time\<close>

text \<open>
  Requests in flight are interleaved at their awaits. The handler opens its transaction
  with a plain \<^verbatim>\<open>BEGIN\<close> and reads the balance with a plain \<^verbatim>\<open>SELECT\<close> (no
  \<^verbatim>\<open>FOR UPDATE\<close>), so under the READ COMMITTED default of the server the read takes no
  lock and sees the rows committed so far; the \<^verbatim>\<open>UPDATE\<close> of a later request waits for the
  commit of an earlier one and then applies \<^verbatim>\<open>total_balance - $1\<close> to the committed row.
  A request is therefore two atomic steps on the committed database: the check, and
  the write with its commit. A schedule names, step by step, the request that moves.
\<close>

datatype progress = AtCheck | AtWrite | Answered "error + transaction_row"

record withdrawal_request =
  wr_user :: uuid
  wr_amount :: money
  wr_description :: "string option"
  wr_hash :: "string option"
  wr_address :: "string option"

definition advance :: "db \<Rightarrow> withdrawal_request \<times> progress \<Rightarrow> db \<times> (withdrawal_request \<times> progress)" where
  "advance d s =
     (case s of
        (r, AtCheck) \<Rightarrow>
          if js_number (wr_amount r) \<le> 0 then (d, (r, Answered (Inl ValidationError)))
          else (case withdrawal_check d (wr_user r) (wr_amount r) of
                  Some e \<Rightarrow> (d, (r, Answered (Inl e)))
                | None \<Rightarrow> (d, (r, AtWrite)))
      | (r, AtWrite) \<Rightarrow>
          (case withdrawal_write d (wr_user r) (wr_amount r) (wr_description r) (wr_hash r)
                  (wr_address r) of
             Inl e \<Rightarrow> (d, (r, Answered (Inl e)))
           | Inr (txn, d') \<Rightarrow> (d', (r, Answered (Inr txn))))
      | (r, Answered a) \<Rightarrow> (d, (r, Answered a)))"

fun run_schedule ::
  "db \<Rightarrow> (withdrawal_request \<times> progress) list \<Rightarrow> nat list
     \<Rightarrow> db \<times> (withdrawal_request \<times> progress) list" where
  "run_schedule d ss [] = (d, ss)"
| "run_schedule d ss (i # sched) =
     (if i < length ss then
        (case advance d (ss ! i) of (d', s') \<Rightarrow> run_schedule d' (ss[i := s']) sched)
      else run_schedule d ss sched)"

subsection \<open>POST /api/portfolio/:userId/allocate (portfolio.js, lines 106--193)\<close>

definition valid_pool_type :: "string \<Rightarrow> bool" where
  "valid_pool_type s =
     (s \<in> set [''stablecoin'', ''lending'', ''dex'', ''staking'', ''yield_aggregator''])"

definition valid_user_mode :: "string \<Rightarrow> bool" where
  "valid_user_mode s = (s \<in> set [''lite'', ''balanced'', ''pro''])"

text \<open>
  The eighth parameter of the \<^verbatim>\<open>INSERT\<close>, \<^verbatim>\<open>(amount * apy) / 365 / 100\<close>: computed by the
  handler in doubles, sent as text, rounded by the store to the scale of
  \<^verbatim>\<open>daily_earnings DECIMAL(18, 6)\<close>.
\<close>

definition js_daily_earnings :: "money \<Rightarrow> money \<Rightarrow> money" where
  "js_daily_earnings amt rate =
     to_decimal6
       (js_text (to_double (to_double (to_double (js_number amt * js_number rate) / 365) / 100)))"

definition conflicts :: "uuid \<Rightarrow> allocation_entry \<Rightarrow> pool_allocation \<Rightarrow> bool" where
  "conflicts userId e r =
     (alloc_user r = userId \<and> protocol_id r = protocolId e \<and> pool_type r = poolType e)"

text \<open>
  The \<^verbatim>\<open>INSERT ... ON CONFLICT (user_id, protocol_id, pool_type) DO UPDATE\<close> of the handler.
  Without a conflicting row the new row is inserted. With one, the \<^verbatim>\<open>DO UPDATE\<close> runs
  the trigger \<^verbatim>\<open>update_pool_allocations_updated_at\<close> (\<^verbatim>\<open>BEFORE UPDATE ON pool_allocations
  FOR EACH ROW\<close>), whose function assigns \<^verbatim>\<open>NEW.updated_at\<close>; the table has no column
  \<^verbatim>\<open>updated_at\<close> (its timestamp column is \<^verbatim>\<open>last_updated\<close>), so the statement raises.
\<close>

definition upsert_pool_allocation ::
  "uuid \<Rightarrow> uuid \<Rightarrow> allocation_entry \<Rightarrow> pool_allocation list
     \<Rightarrow> error + (pool_allocation list \<times> pool_allocation)" where
  "upsert_pool_allocation fresh userId e rows =
     (if \<not> (valid_pool_type (poolType e) \<and> length (poolType e) \<le> 50
             \<and> length (protocolId e) \<le> 100 \<and> length (protocolName e) \<le> 255
             \<and> varchar_ok 255 (js_or_null (protocolAddress e))
             \<and> fits_decimal 18 (amount e) \<and> fits_decimal 10 (apy e)
             \<and> fits_decimal 18 (js_daily_earnings (amount e) (apy e)))
      then Inl StoreError
      else
        (case find (conflicts userId e) rows of
           Some existing \<Rightarrow> Inl StoreError
         | None \<Rightarrow>
             let r = \<lparr>alloc_id = fresh, alloc_user = userId, pool_type = poolType e,
                      protocol_id = protocolId e, protocol_name = protocolName e,
                      protocol_address = js_or_null (protocolAddress e),
                      amount_allocated = amount e, current_apy = apy e,
                      alloc_total_earnings = 0,
                      daily_earnings = js_daily_earnings (amount e) (apy e)\<rparr>
             in Inr (rows @ [r], r)))"

fun allocate_loop ::
  "uuid \<Rightarrow> allocation_entry list \<Rightarrow> db \<Rightarrow> pool_allocation list
     \<Rightarrow> error + (pool_allocation list \<times> db)" where
  "allocate_loop userId [] d createdAllocations = Inr (createdAllocations, d)"
| "allocate_loop userId (alloc # rest) d createdAllocations =
     (if users d userId = None then Inl StoreError
      else
        (case upsert_pool_allocation (next_id d) userId alloc (pool_allocations d) of
           Inl e \<Rightarrow> Inl e
         | Inr (rows, r) \<Rightarrow>
             allocate_loop userId rest
               (d\<lparr>pool_allocations := rows, next_id := next_id d + 1\<rparr>)
               (createdAllocations @ [r])))"

definition Allocate_tx ::
  "db \<Rightarrow> uuid \<Rightarrow> uuid option \<Rightarrow> money \<Rightarrow> allocation_entry list \<Rightarrow> string
     \<Rightarrow> error + (pool_allocation list \<times> db)" where
  "Allocate_tx d userId depositId depositAmount allocations userMode =
     (case allocate_loop userId allocations d [] of
        Inl e \<Rightarrow> Inl e
      | Inr (createdAllocations, d1) \<Rightarrow>
          if users d1 userId = None then Inl StoreError
          else if (case depositId of
                     None \<Rightarrow> False
                   | Some i \<Rightarrow> i \<notin> set (map dep_id (deposits d1)))
            then Inl StoreError
          else if \<not> fits_decimal 18 depositAmount then Inl StoreError
          else
            Inr (createdAllocations,
                 d1\<lparr>allocation_history :=
                      allocation_history d1 @
                        [\<lparr>hist_user = userId, hist_deposit = depositId,
                          hist_deposit_amount = depositAmount,
                          hist_allocations = allocations,
                          hist_user_mode = userMode\<rparr>]\<rparr>))"

definition Allocate ::
  "db \<Rightarrow> uuid \<Rightarrow> uuid option \<Rightarrow> money \<Rightarrow> allocation_entry list \<Rightarrow> string
     \<Rightarrow> (error + pool_allocation list) \<times> db" where
  "Allocate d userId depositId depositAmount allocations userMode =
     (if allocations = [] then (Inl ValidationError, d)
      else if \<not> valid_user_mode userMode then (Inl ValidationError, d)
      else transactional d
             (Allocate_tx d userId depositId depositAmount allocations userMode))"

subsection \<open>DELETE /api/portfolio/:userId/allocation/:allocationId (portfolio.js, lines 289--335)\<close>

text \<open>
  The amount credited is \<^verbatim>\<open>parseFloat(allocation.amount_allocated)\<close>, sent as text and
  added to \<^verbatim>\<open>total_balance\<close> by the store.
\<close>

definition Deallocate_tx :: "db \<Rightarrow> uuid \<Rightarrow> uuid \<Rightarrow> error + (pool_allocation \<times> db)" where
  "Deallocate_tx d userId allocationId =
     (case filter (\<lambda>r. alloc_id r = allocationId \<and> alloc_user r = userId)
             (pool_allocations d) of
        [] \<Rightarrow> Inl NotFoundError
      | allocation # _ \<Rightarrow>
          let amt = parseFloat (amount_allocated allocation);
              d1 = d\<lparr>pool_allocations :=
                        filter (\<lambda>r. alloc_id r \<noteq> allocationId) (pool_allocations d)\<rparr>
          in (case users d1 userId of
                None \<Rightarrow> Inr (allocation, d1)
              | Some u \<Rightarrow>
                  let balance = to_decimal6 (of_decimal6 (total_balance u) + js_text amt)
                  in if \<not> fits_decimal 18 balance then Inl StoreError
                     else Inr (allocation,
                               d1\<lparr>users := (users d1)(userId \<mapsto> u\<lparr>total_balance := balance\<rparr>)\<rparr>)))"

definition Deallocate :: "db \<Rightarrow> uuid \<Rightarrow> uuid \<Rightarrow> (error + pool_allocation) \<times> db" where
  "Deallocate d userId allocationId = transactional d (Deallocate_tx d userId allocationId)"

subsection \<open>APY service: cache and fetchers (getProtocolAPY and the functions it calls)\<close>

text \<open>
  What a call reads from outside the process: the \<^verbatim>\<open>Math.random()\<close> draw of the
  fetcher it runs, the answer of the Beefy API and the clock reading \<^verbatim>\<open>Date.now()\<close>
  taken when the fetched value is stored. APY values are JavaScript numbers, held here
  as rationals. The \<^verbatim>\<open>catch\<close> blocks of the fetchers whose \<^verbatim>\<open>try\<close> block cannot throw
  are left out.
\<close>

datatype beefy_response = RequestFailed | ResponseData "string \<rightharpoonup> rat"

record outside =
  random :: rat
  beefy :: beefy_response
  stored_at :: int

record apy_entry =
  entry_apy :: rat
  entry_timestamp :: int

text \<open>
  The module state: the \<^verbatim>\<open>apyCache\<close> map, and a ghost list \<open>fetched\<close> that records every
  run of the fetching switch, so that "the fetcher was not invoked" can be stated.
\<close>

record apy_state =
  apyCache :: "string \<rightharpoonup> apy_entry"
  fetched :: "string list"

definition CACHE_DURATION :: int where
  "CACHE_DURATION = 10 * 60 * 1000"

fun starts_with :: "string \<Rightarrow> string \<Rightarrow> bool" where
  "starts_with s [] = True"
| "starts_with [] (c # cs) = False"
| "starts_with (x # xs) (c # cs) = (x = c \<and> starts_with xs cs)"

fun str_includes :: "string \<Rightarrow> string \<Rightarrow> bool" where
  "str_includes [] sub = (sub = [])"
| "str_includes (x # xs) sub = (starts_with (x # xs) sub \<or> str_includes xs sub)"

definition fetchAaveAPY :: "outside \<Rightarrow> rat" where
  "fetchAaveAPY w = 7 + random w * 8"

definition fetchCompoundAPY :: "outside \<Rightarrow> rat" where
  "fetchCompoundAPY w = 6 + random w * 9"

definition fetchBeefyAPY :: "outside \<Rightarrow> string \<Rightarrow> rat" where
  "fetchBeefyAPY w vaultId =
     (case beefy w of
        RequestFailed \<Rightarrow> (if str_includes vaultId ''volatile'' then 523 / 10 else 285 / 10)
      | ResponseData m \<Rightarrow>
          (case m vaultId of
             Some v \<Rightarrow>
               if v \<noteq> 0 then v
               else if str_includes vaultId ''volatile'' then 45 + random w * 15
               else 25 + random w * 10
           | None \<Rightarrow>
               if str_includes vaultId ''volatile'' then 45 + random w * 15
               else 25 + random w * 10))"

definition fetchMoonwellAPY :: "outside \<Rightarrow> string \<Rightarrow> rat" where
  "fetchMoonwellAPY w marketType =
     (let baseAPY = (if marketType = ''multi'' then 40 else 20)
      in baseAPY + random w * 10)"

definition fetchDexAPY :: "outside \<Rightarrow> string \<Rightarrow> rat" where
  "fetchDexAPY w poolId = 60 + random w * 20"

definition fetch_switch :: "outside \<Rightarrow> string \<Rightarrow> rat" where
  "fetch_switch w pid =
     (if pid = ''aave-v3-usdc'' then fetchAaveAPY w
      else if pid = ''compound-v3-usdc'' then fetchCompoundAPY w
      else if pid = ''moonwell-usdc'' then fetchMoonwellAPY w ''usdc''
      else if pid = ''moonwell-multi'' then fetchMoonwellAPY w ''multi''
      else if pid = ''seamless-usdc'' then 18 + random w * 5
      else if pid = ''seamless-multi'' then 35 + random w * 8
      else if pid = ''beefy-stable'' then fetchBeefyAPY w ''base-usdc-stable''
      else if pid = ''beefy-volatile'' then fetchBeefyAPY w ''base-multi-volatile''
      else if pid = ''yearn-usdc'' then 23 + random w * 7
      else if pid = ''aerodrome-usdc'' then fetchDexAPY w ''aerodrome''
      else if pid = ''uniswap-v3'' then fetchDexAPY w ''uniswap-v3''
      else 10)"

text \<open>\<open>now\<close> is the \<^verbatim>\<open>Date.now()\<close> of the cache check at the start of the call.\<close>

definition getProtocolAPY :: "apy_state \<Rightarrow> int \<Rightarrow> outside \<Rightarrow> string \<Rightarrow> rat \<times> apy_state" where
  "getProtocolAPY st now w pid =
     (case apyCache st pid of
        Some cached \<Rightarrow>
          if now - entry_timestamp cached < CACHE_DURATION then (entry_apy cached, st)
          else
            (let v = fetch_switch w pid
             in (v, st\<lparr>apyCache :=
                         (apyCache st)(pid \<mapsto>
                            \<lparr>entry_apy = v, entry_timestamp = stored_at w\<rparr>),
                       fetched := fetched st @ [pid]\<rparr>))
      | None \<Rightarrow>
          (let v = fetch_switch w pid
           in (v, st\<lparr>apyCache :=
                       (apyCache st)(pid \<mapsto>
                          \<lparr>entry_apy = v, entry_timestamp = stored_at w\<rparr>),
                     fetched := fetched st @ [pid]\<rparr>)))"

definition clearCache :: "apy_state \<Rightarrow> apy_state" where
  "clearCache st = st\<lparr>apyCache := Map.empty\<rparr>"


subsection \<open>Sample states\<close>

text \<open>
  The streak row inserted when a wallet connects for the first time
  (\<^verbatim>\<open>INSERT INTO streaks (user_id, current_streak, longest_streak, total_deposits)
  VALUES ($1, 0, 0, 0)\<close>).
\<close>

definition new_streak :: streak where
  "new_streak = \<lparr>current_streak = 0, longest_streak = 0, last_deposit_date = None,
                  total_deposits = 0\<rparr>"

definition sample_user :: user where
  "sample_user = \<lparr>total_balance = 1000000000, total_earnings = 0\<rparr>"

definition sample_goal :: savings_goal where
  "sample_goal = \<lparr>goal_user = 1, title = ''Laptop'', target_amount = 500000000,
                   current_amount = 450000000, is_completed = False\<rparr>"

definition sample_db :: db where
  "sample_db = \<lparr>users = [1 \<mapsto> sample_user], savings_goals = [7 \<mapsto> sample_goal],
                 payment_methods = {}, deposits = [], transactions = [],
                 streaks = [1 \<mapsto> new_streak], daily_growth = Map.empty,
                 pool_allocations = [], allocation_history = [], next_id = 100\<rparr>"

text \<open>A user who has just connected: balance 0.\<close>

definition fresh_db :: db where
  "fresh_db = \<lparr>users = [1 \<mapsto> \<lparr>total_balance = 0, total_earnings = 0\<rparr>],
                savings_goals = Map.empty, payment_methods = {}, deposits = [],
                transactions = [], streaks = [1 \<mapsto> new_streak], daily_growth = Map.empty,
                pool_allocations = [], allocation_history = [], next_id = 100\<rparr>"

text \<open>A user with a balance of 10000000000.000001.\<close>

definition rich_db :: db where
  "rich_db = \<lparr>users = [1 \<mapsto> \<lparr>total_balance = 10000000000000001, total_earnings = 0\<rparr>],
               savings_goals = Map.empty, payment_methods = {}, deposits = [],
               transactions = [], streaks = [1 \<mapsto> new_streak], daily_growth = Map.empty,
               pool_allocations = [], allocation_history = [], next_id = 100\<rparr>"

definition aave_entry :: "money \<Rightarrow> money \<Rightarrow> allocation_entry" where
  "aave_entry amt rate =
     \<lparr>poolType = ''lending'', protocolId = ''aave-v3-usdc'', protocolName = ''Aave V3'',
      protocolAddress = None, amount = amt, percentage = 100000000, apy = rate\<rparr>"




text \<open>
  A server in the zone Asia/Jakarta, 420 minutes east of UTC: a new user deposits twice
  on day 10.
\<close>

definition jakarta_first_db :: db where
  "jakarta_first_db = snd (RecordDeposit 420 fresh_db 10 1 None 5000000 None None)"

definition jakarta_second_db :: db where
  "jakarta_second_db = snd (RecordDeposit 420 jakarta_first_db 10 1 None 2500000 None None)"

text \<open>The same server: a new user deposits on the days 1, 2, 3 and 7.\<close>

definition jakarta_day1_db :: db where
  "jakarta_day1_db = snd (RecordDeposit 420 fresh_db 1 1 None 5000000 None None)"

definition jakarta_day2_db :: db where
  "jakarta_day2_db = snd (RecordDeposit 420 jakarta_day1_db 2 1 None 5000000 None None)"

definition jakarta_day3_db :: db where
  "jakarta_day3_db = snd (RecordDeposit 420 jakarta_day2_db 3 1 None 5000000 None None)"

definition jakarta_day7_db :: db where
  "jakarta_day7_db = snd (RecordDeposit 420 jakarta_day3_db 7 1 None 5000000 None None)"

text \<open>
  The sample state after allocating 100.000000 to Aave at 10.000000 percent, and after
  the allocation (which received key 100) is removed again.
\<close>

definition allocated_db :: db where
  "allocated_db =
     snd (Allocate sample_db 1 None 100000000 [aave_entry 100000000 10000000] ''lite'')"

definition deallocated_db :: db where
  "deallocated_db = snd (Deallocate allocated_db 1 100)"

text \<open>
  Two requests to withdraw the whole balance of the sample user, 1000.000000, in flight
  together: both run their check, then both run their write.
\<close>

definition whole_balance_request :: withdrawal_request where
  "whole_balance_request =
     \<lparr>wr_user = 1, wr_amount = 1000000000, wr_description = None, wr_hash = None,
      wr_address = None\<rparr>"

definition raced :: "db \<times> (withdrawal_request \<times> progress) list" where
  "raced =
     run_schedule sample_db
       [(whole_balance_request, AtCheck), (whole_balance_request, AtCheck)] [0, 1, 0, 1]"

text \<open>An empty cache and two readings of the outside world.\<close>

definition empty_cache :: apy_state where
  "empty_cache = \<lparr>apyCache = Map.empty, fetched = []\<rparr>"

definition outside1 :: outside where
  "outside1 = \<lparr>random = 1 / 2, beefy = RequestFailed, stored_at = 1000\<rparr>"

definition outside2 :: outside where
  "outside2 = \<lparr>random = 1 / 4, beefy = RequestFailed, stored_at = 601005\<rparr>"

section \<open>Properties\<close>

subsection \<open>Doubles\<close>

text \<open>
  Rounding to a double is monotone and keeps the sign, so a comparison of two doubles
  can only lose a strict order, never reverse it.
\<close>

lemma round_half_even_between:
  "\<lfloor>x\<rfloor> \<le> round_half_even x \<and> round_half_even x \<le> \<lfloor>x\<rfloor> + 1"
  by (simp add: round_half_even_def Let_def)

lemma round_half_even_of_int [simp]: "round_half_even (of_int n) = n"
  by (simp add: round_half_even_def Let_def)

lemma round_half_even_mono:
  assumes "x \<le> y"
  shows "round_half_even x \<le> round_half_even y"
proof (cases "\<lfloor>x\<rfloor> < \<lfloor>y\<rfloor>")
  case True
  then show ?thesis
    using round_half_even_between [of x] round_half_even_between [of y] by linarith
next
  case False
  then have eq: "\<lfloor>x\<rfloor> = \<lfloor>y\<rfloor>" using floor_mono [OF assms] by linarith
  show ?thesis
    using assms by (auto simp: round_half_even_def Let_def eq)
qed

lemma bitlen_powi:
  assumes "0 < p"
  shows "(2::rat) powi (bitlen p - 1) \<le> of_int p" and "of_int p < (2::rat) powi bitlen p"
proof -
  have b: "2 ^ nat (bitlen p - 1) \<le> p" "p < 2 ^ nat (bitlen p)"
    using bitlen_bounds [OF assms] by simp_all
  have ge: "1 \<le> bitlen p"
    using assms bitlen_eq_zero_iff [of p] bitlen_nonneg [of p] by linarith
  have "(of_int (2 ^ nat (bitlen p - 1)) :: rat) \<le> of_int p"
    using b(1) by (simp only: of_int_le_iff)
  then show "(2::rat) powi (bitlen p - 1) \<le> of_int p"
    using ge by (simp add: power_int_def)
  have "(of_int p :: rat) < of_int (2 ^ nat (bitlen p))"
    using b(2) by (simp only: of_int_less_iff)
  then show "of_int p < (2::rat) powi bitlen p"
    using ge by (simp add: power_int_def)
qed

lemma ilog2_bounds:
  assumes "0 < x"
  shows "2 powi ilog2 x \<le> x" and "x < 2 powi (ilog2 x + 1)"
proof -
  obtain p q where pq: "quotient_of x = (p, q)" by (cases "quotient_of x")
  have q: "0 < q" using pq by (rule quotient_of_denom_pos)
  have x: "x = of_int p / of_int q" using pq by (rule quotient_of_div)
  have p: "0 < p" using assms q x by (simp add: zero_less_divide_iff)
  define k where "k = bitlen p - bitlen q"
  have up: "x < 2 powi (k + 1)"
  proof -
    have "x < 2 powi bitlen p / of_int q"
      unfolding x using bitlen_powi(2) [OF p] q by (simp add: divide_strict_right_mono)
    also have "\<dots> \<le> 2 powi bitlen p / 2 powi (bitlen q - 1)"
      using bitlen_powi(1) [OF q] by (intro divide_left_mono) (simp_all add: q)
    also have "\<dots> = 2 powi (k + 1)"
      by (simp add: k_def power_int_diff [symmetric] algebra_simps)
    finally show ?thesis .
  qed
  have low: "2 powi (k - 1) \<le> x"
  proof -
    have "2 powi (k - 1) = 2 powi (bitlen p - 1) / (2 powi bitlen q :: rat)"
      by (simp add: k_def power_int_diff [symmetric] algebra_simps)
    also have "\<dots> \<le> of_int p / 2 powi bitlen q"
      using bitlen_powi(1) [OF p] by (intro divide_right_mono) simp_all
    also have "\<dots> \<le> of_int p / of_int q"
      using bitlen_powi(2) [OF q] p q by (intro divide_left_mono) simp_all
    finally show ?thesis by (simp add: x)
  qed
  have e: "ilog2 x = (if 2 powi k \<le> x then k else k - 1)"
    by (simp add: ilog2_def pq k_def Let_def)
  show "2 powi ilog2 x \<le> x" using low by (simp add: e)
  show "x < 2 powi (ilog2 x + 1)" using up by (simp add: e)
qed



lemma to_double_pos_bounds:
  assumes "0 < x"
  shows "2 powi ilog2 x \<le> to_double x" and "to_double x \<le> 2 powi (ilog2 x + 1)"
proof -
  define u :: rat where "u = 2 powi (ilog2 x - 52)"
  have u: "0 < u" by (simp add: u_def)
  have td: "to_double x = of_int (round_half_even (x / u)) * u"
    using assms by (simp add: to_double_def u_def Let_def)
  have lo: "(2::rat) powi ilog2 x = of_int (2 ^ 52) * u"
    by (simp add: u_def power_int_diff)
  have hi: "(2::rat) powi (ilog2 x + 1) = of_int (2 ^ 53) * u"
    by (simp add: u_def power_int_diff power_int_add)
  have "of_int (2 ^ 52) \<le> x / u"
    using ilog2_bounds(1) [OF assms] u unfolding lo by (simp add: pos_le_divide_eq)
  then have "round_half_even (of_int (2 ^ 52)) \<le> round_half_even (x / u)"
    by (rule round_half_even_mono)
  then have a: "2 ^ 52 \<le> round_half_even (x / u)"
    by (simp only: round_half_even_of_int)
  have "x / u \<le> of_int (2 ^ 53)"
    using ilog2_bounds(2) [OF assms] u unfolding hi by (simp add: pos_divide_le_eq)
  then have "round_half_even (x / u) \<le> round_half_even (of_int (2 ^ 53))"
    by (rule round_half_even_mono)
  then have b: "round_half_even (x / u) \<le> 2 ^ 53"
    by (simp only: round_half_even_of_int)
  have "(of_int (2 ^ 52) :: rat) \<le> of_int (round_half_even (x / u))"
    using a by (simp only: of_int_le_iff)
  then show "2 powi ilog2 x \<le> to_double x"
    unfolding lo td using u by (simp add: mult_right_mono)
  have "(of_int (round_half_even (x / u)) :: rat) \<le> of_int (2 ^ 53)"
    using b by (simp only: of_int_le_iff)
  then show "to_double x \<le> 2 powi (ilog2 x + 1)"
    unfolding hi td using u by (simp add: mult_right_mono)
qed

lemma to_double_neg_bounds:
  assumes "x < 0"
  shows "- (2 powi (ilog2 \<bar>x\<bar> + 1)) \<le> to_double x" and "to_double x \<le> - (2 powi ilog2 \<bar>x\<bar>)"
proof -
  define u :: rat where "u = 2 powi (ilog2 \<bar>x\<bar> - 52)"
  have u: "0 < u" by (simp add: u_def)
  have ax: "0 < \<bar>x\<bar>" using assms by simp
  have td: "to_double x = of_int (round_half_even (x / u)) * u"
    using assms by (simp add: to_double_def u_def Let_def)
  have lo: "(2::rat) powi ilog2 \<bar>x\<bar> = of_int (2 ^ 52) * u"
    by (simp add: u_def power_int_diff)
  have hi: "(2::rat) powi (ilog2 \<bar>x\<bar> + 1) = of_int (2 ^ 53) * u"
    by (simp add: u_def power_int_diff power_int_add)
  have "of_int (2 ^ 52) * u \<le> - x"
    using ilog2_bounds(1) [OF ax] assms unfolding lo by simp
  then have "x / u \<le> of_int (- (2 ^ 52))"
    using u by (simp add: pos_divide_le_eq)
  then have "round_half_even (x / u) \<le> round_half_even (of_int (- (2 ^ 52)))"
    by (rule round_half_even_mono)
  then have a: "round_half_even (x / u) \<le> - (2 ^ 52)"
    by (simp only: round_half_even_of_int)
  have "- x \<le> of_int (2 ^ 53) * u"
    using ilog2_bounds(2) [OF ax] assms unfolding hi by simp
  then have "of_int (- (2 ^ 53)) \<le> x / u"
    using u by (simp add: pos_le_divide_eq)
  then have "round_half_even (of_int (- (2 ^ 53))) \<le> round_half_even (x / u)"
    by (rule round_half_even_mono)
  then have b: "- (2 ^ 53) \<le> round_half_even (x / u)"
    by (simp only: round_half_even_of_int)
  have "(of_int (round_half_even (x / u)) :: rat) \<le> of_int (- (2 ^ 52))"
    using a by (simp only: of_int_le_iff)
  then have "of_int (round_half_even (x / u)) * u \<le> of_int (- (2 ^ 52)) * u"
    using u by (simp only: mult_right_mono less_imp_le)
  then show "to_double x \<le> - (2 powi ilog2 \<bar>x\<bar>)"
    unfolding lo td by simp
  have "(of_int (- (2 ^ 53)) :: rat) \<le> of_int (round_half_even (x / u))"
    using b by (simp only: of_int_le_iff)
  then have "of_int (- (2 ^ 53)) * u \<le> of_int (round_half_even (x / u)) * u"
    using u by (simp only: mult_right_mono less_imp_le)
  then show "- (2 powi (ilog2 \<bar>x\<bar> + 1)) \<le> to_double x"
    unfolding hi td by simp
qed



lemma to_double_sign:
  "0 < x \<Longrightarrow> 0 < to_double x" "x < 0 \<Longrightarrow> to_double x < 0"
proof -
  show "0 < to_double x" if "0 < x"
    using to_double_pos_bounds(1) [OF that] zero_less_power_int [of "2::rat" "ilog2 x"]
    by linarith
  show "to_double x < 0" if "x < 0"
    using to_double_neg_bounds(2) [OF that] zero_less_power_int [of "2::rat" "ilog2 \<bar>x\<bar>"]
    by linarith
qed



lemma js_number_nonpos_iff: "js_number amt \<le> 0 \<longleftrightarrow> amt \<le> 0"
proof -
  have "of_decimal6 amt \<le> 0 \<longleftrightarrow> amt \<le> 0"
    by (simp add: of_decimal6_def divide_le_0_iff)
  moreover have "to_double x \<le> 0 \<longleftrightarrow> x \<le> 0" for x
  proof (cases "x = 0")
    case True
    then show ?thesis by (simp add: to_double_def)
  next
    case False
    then consider "0 < x" | "x < 0" by linarith
    then show ?thesis
    proof cases
      case 1
      then show ?thesis using to_double_sign(1) [of x] by linarith
    next
      case 2
      then show ?thesis using to_double_sign(2) [of x] by linarith
    qed
  qed
  ultimately show ?thesis by (simp add: js_number_def)
qed



lemma js_number_parseFloat: "js_number a = parseFloat a"
  by (simp add: js_number_def parseFloat_def)

subsection \<open>What a committed deposit changes\<close>



lemma RecordDeposit_plain:
  assumes "0 < amt" and "users d uid = Some u" and "fits_decimal 18 amt"
    and "fits_decimal 18 (total_balance u + amt)" and "streaks d uid = Some s"
    and "streak_update z s today = Some s'"
    and "fits_integer (current_streak s')" and "fits_integer (longest_streak s')"
    and "fits_integer (total_deposits s')"
  shows "fst (RecordDeposit z d today uid None amt None None) =
           Inr \<lparr>dep_id = next_id d, dep_user = uid, dep_goal = None, dep_amount = amt,
                dep_payment_method = None, dep_hash = None, dep_status = confirmed\<rparr>"
    and "users (snd (RecordDeposit z d today uid None amt None None)) uid =
           Some (u\<lparr>total_balance := total_balance u + amt\<rparr>)"
    and "streaks (snd (RecordDeposit z d today uid None amt None None)) uid = Some s'"
    and "next_id (snd (RecordDeposit z d today uid None amt None None)) = next_id d + 2"
  using assms
  by (simp_all add: RecordDeposit_def RecordDeposit_tx_def transactional_def Let_def
      and_then_def deposit_goal_step_def deposit_balance_step_def deposit_streak_step_def
      js_number_nonpos_iff js_or_null_def varchar_ok_def)

lemma fresh_db_user:
  "users fresh_db 1 = Some \<lparr>total_balance = 0, total_earnings = 0\<rparr>"
  "streaks fresh_db 1 = Some new_streak" "next_id fresh_db = 100"
  by (simp_all add: fresh_db_def)




subsection \<open>Deposits without a goal\<close>




subsection \<open>Streaks on a server east of UTC\<close>

lemma jakarta_first:
  "fst (RecordDeposit 420 fresh_db 10 1 None 5000000 None None) =
     Inr \<lparr>dep_id = 100, dep_user = 1, dep_goal = None, dep_amount = 5000000,
          dep_payment_method = None, dep_hash = None, dep_status = confirmed\<rparr>"
  "users jakarta_first_db 1 = Some \<lparr>total_balance = 5000000, total_earnings = 0\<rparr>"
  "streaks jakarta_first_db 1 =
     Some \<lparr>current_streak = 1, longest_streak = 1, last_deposit_date = Some 10,
           total_deposits = 1\<rparr>"
  "next_id jakarta_first_db = 102"
proof -
  have u: "streak_update 420 new_streak 10 =
      Some \<lparr>current_streak = 1, longest_streak = 1, last_deposit_date = Some 10,
           total_deposits = 1\<rparr>"
    by (simp add: streak_update_def new_streak_def)
  note r = RecordDeposit_plain [where z = 420 and d = fresh_db and today = 10 and uid = 1
      and amt = 5000000, OF _ fresh_db_user(1) _ _ fresh_db_user(2) u]
  show "fst (RecordDeposit 420 fresh_db 10 1 None 5000000 None None) =
     Inr \<lparr>dep_id = 100, dep_user = 1, dep_goal = None, dep_amount = 5000000,
          dep_payment_method = None, dep_hash = None, dep_status = confirmed\<rparr>"
    using r(1) by (simp add: fits_decimal_def fits_integer_def fresh_db_user)
  show "users jakarta_first_db 1 = Some \<lparr>total_balance = 5000000, total_earnings = 0\<rparr>"
    unfolding jakarta_first_db_def using r(2) by (simp add: fits_decimal_def fits_integer_def)
  show "streaks jakarta_first_db 1 =
     Some \<lparr>current_streak = 1, longest_streak = 1, last_deposit_date = Some 10,
           total_deposits = 1\<rparr>"
    unfolding jakarta_first_db_def using r(3) by (simp add: fits_decimal_def fits_integer_def)
  show "next_id jakarta_first_db = 102"
    unfolding jakarta_first_db_def using r(4)
    by (simp add: fits_decimal_def fits_integer_def fresh_db_user)
qed

lemma jakarta_second:
  "fst (RecordDeposit 420 jakarta_first_db 10 1 None 2500000 None None) =
     Inr \<lparr>dep_id = 102, dep_user = 1, dep_goal = None, dep_amount = 2500000,
          dep_payment_method = None, dep_hash = None, dep_status = confirmed\<rparr>"
  "users jakarta_second_db 1 = Some \<lparr>total_balance = 7500000, total_earnings = 0\<rparr>"
  "streaks jakarta_second_db 1 =
     Some \<lparr>current_streak = 2, longest_streak = 2, last_deposit_date = Some 10,
           total_deposits = 2\<rparr>"
proof -
  have u: "streak_update 420 \<lparr>current_streak = 1, longest_streak = 1,
        last_deposit_date = Some 10, total_deposits = 1\<rparr> 10 =
      Some \<lparr>current_streak = 2, longest_streak = 2, last_deposit_date = Some 10,
           total_deposits = 2\<rparr>"
    by (simp add: streak_update_def read_back_date_def)
  note r = RecordDeposit_plain [where z = 420 and d = jakarta_first_db and today = 10
      and uid = 1 and amt = 2500000, OF _ jakarta_first(2) _ _ jakarta_first(3) u]
  show "fst (RecordDeposit 420 jakarta_first_db 10 1 None 2500000 None None) =
     Inr \<lparr>dep_id = 102, dep_user = 1, dep_goal = None, dep_amount = 2500000,
          dep_payment_method = None, dep_hash = None, dep_status = confirmed\<rparr>"
    using r(1) by (simp add: fits_decimal_def fits_integer_def jakarta_first)
  show "users jakarta_second_db 1 = Some \<lparr>total_balance = 7500000, total_earnings = 0\<rparr>"
    unfolding jakarta_second_db_def using r(2) by (simp add: fits_decimal_def fits_integer_def)
  show "streaks jakarta_second_db 1 =
     Some \<lparr>current_streak = 2, longest_streak = 2, last_deposit_date = Some 10,
           total_deposits = 2\<rparr>"
    unfolding jakarta_second_db_def using r(3) by (simp add: fits_decimal_def fits_integer_def)
qed

text \<open>
  C3 does not hold of the handler on a server east of UTC. In the zone Asia/Jakarta a
  new user deposits twice on day 10. Both deposits commit. The first leaves the streak
  row at (1, 1, day 10, 1); the second reads the stored date back as day 9, takes it for
  the day before, and writes (2, 2, day 10, 2): \<open>current_streak\<close> and \<open>total_deposits\<close>
  change on the second deposit of the day.
\<close>

theorem second_deposit_same_day_east_of_utc:
  "fst (RecordDeposit 420 fresh_db 10 1 None 5000000 None None) =
     Inr \<lparr>dep_id = 100, dep_user = 1, dep_goal = None, dep_amount = 5000000,
          dep_payment_method = None, dep_hash = None, dep_status = confirmed\<rparr>
   \<and> streaks jakarta_first_db 1 =
       Some \<lparr>current_streak = 1, longest_streak = 1, last_deposit_date = Some 10,
             total_deposits = 1\<rparr>
   \<and> fst (RecordDeposit 420 jakarta_first_db 10 1 None 2500000 None None) =
       Inr \<lparr>dep_id = 102, dep_user = 1, dep_goal = None, dep_amount = 2500000,
            dep_payment_method = None, dep_hash = None, dep_status = confirmed\<rparr>
   \<and> streaks jakarta_second_db 1 =
       Some \<lparr>current_streak = 2, longest_streak = 2, last_deposit_date = Some 10,
             total_deposits = 2\<rparr>"
  using jakarta_first(1,3) jakarta_second(1,3) by (simp del: One_nat_def)

lemma jakarta_days:
  "fst (RecordDeposit 420 fresh_db 1 1 None 5000000 None None) =
     Inr \<lparr>dep_id = 100, dep_user = 1, dep_goal = None, dep_amount = 5000000,
          dep_payment_method = None, dep_hash = None, dep_status = confirmed\<rparr>"
  "streaks jakarta_day1_db 1 =
     Some \<lparr>current_streak = 1, longest_streak = 1, last_deposit_date = Some 1,
           total_deposits = 1\<rparr>"
  "fst (RecordDeposit 420 jakarta_day1_db 2 1 None 5000000 None None) =
     Inr \<lparr>dep_id = 102, dep_user = 1, dep_goal = None, dep_amount = 5000000,
          dep_payment_method = None, dep_hash = None, dep_status = confirmed\<rparr>"
  "streaks jakarta_day2_db 1 =
     Some \<lparr>current_streak = 1, longest_streak = 1, last_deposit_date = Some 2,
           total_deposits = 2\<rparr>"
  "fst (RecordDeposit 420 jakarta_day2_db 3 1 None 5000000 None None) =
     Inr \<lparr>dep_id = 104, dep_user = 1, dep_goal = None, dep_amount = 5000000,
          dep_payment_method = None, dep_hash = None, dep_status = confirmed\<rparr>"
  "streaks jakarta_day3_db 1 =
     Some \<lparr>current_streak = 1, longest_streak = 1, last_deposit_date = Some 3,
           total_deposits = 3\<rparr>"
  "fst (RecordDeposit 420 jakarta_day3_db 7 1 None 5000000 None None) =
     Inr \<lparr>dep_id = 106, dep_user = 1, dep_goal = None, dep_amount = 5000000,
          dep_payment_method = None, dep_hash = None, dep_status = confirmed\<rparr>"
  "streaks jakarta_day7_db 1 =
     Some \<lparr>current_streak = 1, longest_streak = 1, last_deposit_date = Some 7,
           total_deposits = 4\<rparr>"
proof -
  let ?s1 = "\<lparr>current_streak = 1, longest_streak = 1, last_deposit_date = Some 1,
           total_deposits = 1\<rparr>"
  let ?s2 = "\<lparr>current_streak = 1, longest_streak = 1, last_deposit_date = Some 2,
           total_deposits = 2\<rparr>"
  let ?s3 = "\<lparr>current_streak = 1, longest_streak = 1, last_deposit_date = Some 3,
           total_deposits = 3\<rparr>"
  let ?s4 = "\<lparr>current_streak = 1, longest_streak = 1, last_deposit_date = Some 7,
           total_deposits = 4\<rparr>"
  have u1: "streak_update 420 new_streak 1 = Some ?s1"
    by (simp add: streak_update_def new_streak_def)
  have u2: "streak_update 420 ?s1 2 = Some ?s2"
    by (simp add: streak_update_def read_back_date_def)
  have u3: "streak_update 420 ?s2 3 = Some ?s3"
    by (simp add: streak_update_def read_back_date_def)
  have u4: "streak_update 420 ?s3 7 = Some ?s4"
    by (simp add: streak_update_def read_back_date_def)
  note f = fits_decimal_def fits_integer_def
  note r1 = RecordDeposit_plain [where z = 420 and d = fresh_db and today = 1 and uid = 1
      and amt = 5000000, OF _ fresh_db_user(1) _ _ fresh_db_user(2) u1]
  show a1: "fst (RecordDeposit 420 fresh_db 1 1 None 5000000 None None) =
     Inr \<lparr>dep_id = 100, dep_user = 1, dep_goal = None, dep_amount = 5000000,
          dep_payment_method = None, dep_hash = None, dep_status = confirmed\<rparr>"
    using r1(1) by (simp add: f fresh_db_user)
  have b1: "users jakarta_day1_db 1 = Some \<lparr>total_balance = 5000000, total_earnings = 0\<rparr>"
    unfolding jakarta_day1_db_def using r1(2) by (simp add: f)
  show c1: "streaks jakarta_day1_db 1 = Some ?s1"
    unfolding jakarta_day1_db_def using r1(3) by (simp add: f)
  have n1: "next_id jakarta_day1_db = 102"
    unfolding jakarta_day1_db_def using r1(4) by (simp add: f fresh_db_user)
  note r2 = RecordDeposit_plain [where z = 420 and d = jakarta_day1_db and today = 2
      and uid = 1 and amt = 5000000, OF _ b1 _ _ c1 u2]
  show a2: "fst (RecordDeposit 420 jakarta_day1_db 2 1 None 5000000 None None) =
     Inr \<lparr>dep_id = 102, dep_user = 1, dep_goal = None, dep_amount = 5000000,
          dep_payment_method = None, dep_hash = None, dep_status = confirmed\<rparr>"
    using r2(1) by (simp add: f n1)
  have b2: "users jakarta_day2_db 1 = Some \<lparr>total_balance = 10000000, total_earnings = 0\<rparr>"
    unfolding jakarta_day2_db_def using r2(2) by (simp add: f)
  show c2: "streaks jakarta_day2_db 1 = Some ?s2"
    unfolding jakarta_day2_db_def using r2(3) by (simp add: f)
  have n2: "next_id jakarta_day2_db = 104"
    unfolding jakarta_day2_db_def using r2(4) by (simp add: f n1)
  note r3 = RecordDeposit_plain [where z = 420 and d = jakarta_day2_db and today = 3
      and uid = 1 and amt = 5000000, OF _ b2 _ _ c2 u3]
  show a3: "fst (RecordDeposit 420 jakarta_day2_db 3 1 None 5000000 None None) =
     Inr \<lparr>dep_id = 104, dep_user = 1, dep_goal = None, dep_amount = 5000000,
          dep_payment_method = None, dep_hash = None, dep_status = confirmed\<rparr>"
    using r3(1) by (simp add: f n2)
  have b3: "users jakarta_day3_db 1 = Some \<lparr>total_balance = 15000000, total_earnings = 0\<rparr>"
    unfolding jakarta_day3_db_def using r3(2) by (simp add: f)
  show c3: "streaks jakarta_day3_db 1 = Some ?s3"
    unfolding jakarta_day3_db_def using r3(3) by (simp add: f)
  have n3: "next_id jakarta_day3_db = 106"
    unfolding jakarta_day3_db_def using r3(4) by (simp add: f n2)
  note r4 = RecordDeposit_plain [where z = 420 and d = jakarta_day3_db and today = 7
      and uid = 1 and amt = 5000000, OF _ b3 _ _ c3 u4]
  show "fst (RecordDeposit 420 jakarta_day3_db 7 1 None 5000000 None None) =
     Inr \<lparr>dep_id = 106, dep_user = 1, dep_goal = None, dep_amount = 5000000,
          dep_payment_method = None, dep_hash = None, dep_status = confirmed\<rparr>"
    using r4(1) by (simp add: f n3)
  show "streaks jakarta_day7_db 1 = Some ?s4"
    unfolding jakarta_day7_db_def using r4(3) by (simp add: f)
qed

text \<open>
  C4 does not hold of the handler on a server east of UTC. In the zone Asia/Jakarta a
  new user deposits on the days 1, 2 and 3. Each deposit after the first reads the stored
  date back one day early, finds a gap of two days and resets: the streak row is
  (1, 1, day 1, 1), then (1, 1, day 2, 2), then (1, 1, day 3, 3), where C4 has
  \<open>current_streak = 3\<close> and \<open>longest_streak = 3\<close>; after the deposit on day 7 it is
  (1, 1, day 7, 4), where C4 has \<open>longest_streak = 3\<close>.
\<close>

theorem consecutive_days_east_of_utc:
  "streaks fresh_db 1 =
     Some \<lparr>current_streak = 0, longest_streak = 0, last_deposit_date = None,
           total_deposits = 0\<rparr>
   \<and> fst (RecordDeposit 420 fresh_db 1 1 None 5000000 None None) =
       Inr \<lparr>dep_id = 100, dep_user = 1, dep_goal = None, dep_amount = 5000000,
            dep_payment_method = None, dep_hash = None, dep_status = confirmed\<rparr>
   \<and> streaks jakarta_day1_db 1 =
       Some \<lparr>current_streak = 1, longest_streak = 1, last_deposit_date = Some 1,
             total_deposits = 1\<rparr>
   \<and> fst (RecordDeposit 420 jakarta_day1_db 2 1 None 5000000 None None) =
       Inr \<lparr>dep_id = 102, dep_user = 1, dep_goal = None, dep_amount = 5000000,
            dep_payment_method = None, dep_hash = None, dep_status = confirmed\<rparr>
   \<and> streaks jakarta_day2_db 1 =
       Some \<lparr>current_streak = 1, longest_streak = 1, last_deposit_date = Some 2,
             total_deposits = 2\<rparr>
   \<and> fst (RecordDeposit 420 jakarta_day2_db 3 1 None 5000000 None None) =
       Inr \<lparr>dep_id = 104, dep_user = 1, dep_goal = None, dep_amount = 5000000,
            dep_payment_method = None, dep_hash = None, dep_status = confirmed\<rparr>
   \<and> streaks jakarta_day3_db 1 =
       Some \<lparr>current_streak = 1, longest_streak = 1, last_deposit_date = Some 3,
             total_deposits = 3\<rparr>
   \<and> fst (RecordDeposit 420 jakarta_day3_db 7 1 None 5000000 None None) =
       Inr \<lparr>dep_id = 106, dep_user = 1, dep_goal = None, dep_amount = 5000000,
            dep_payment_method = None, dep_hash = None, dep_status = confirmed\<rparr>
   \<and> streaks jakarta_day7_db 1 =
       Some \<lparr>current_streak = 1, longest_streak = 1, last_deposit_date = Some 7,
             total_deposits = 4\<rparr>"
proof -
  have "streaks fresh_db 1 =
     Some \<lparr>current_streak = 0, longest_streak = 0, last_deposit_date = None,
           total_deposits = 0\<rparr>"
    by (simp add: fresh_db_def new_streak_def)
  with jakarta_days show ?thesis by (simp only: simp_thms)
qed

subsection \<open>Deposits to a goal\<close>










subsection \<open>Withdrawals\<close>

lemma tie_at_ten_billion: "parseFloat 10000000000000001 = js_number 10000000000000002"
  by code_simp

lemma rich_db_user:
  "users rich_db 1 = Some \<lparr>total_balance = 10000000000000001, total_earnings = 0\<rparr>"
  "transactions rich_db = []" "next_id rich_db = 100"
  by (simp_all add: rich_db_def)

text \<open>
  C6 does not hold of the handler. The user has 10000000000.000001 and asks for
  10000000000.000002, which is more. \<^verbatim>\<open>parseFloat\<close> of the balance and the requested
  number are the same double, so \<^verbatim>\<open>currentBalance < amount\<close> is false: the withdrawal
  commits, a transaction row is appended and the balance is left at -0.000001.
\<close>

theorem withdrawal_above_balance_commits:
  "users rich_db 1 = Some \<lparr>total_balance = 10000000000000001, total_earnings = 0\<rparr>
   \<and> (10000000000000001 :: int) < 10000000000000002
   \<and> parseFloat 10000000000000001 = js_number 10000000000000002
   \<and> fst (RecordWithdrawal rich_db 1 10000000000000002 None None None) =
       Inr \<lparr>txn_id = 100, txn_user = 1, txn_type = withdrawal,
            txn_amount = 10000000000000002,
            txn_description = ''Withdrawal to external wallet'', txn_hash = None,
            txn_status = confirmed\<rparr>
   \<and> users (snd (RecordWithdrawal rich_db 1 10000000000000002 None None None)) 1 =
       Some \<lparr>total_balance = - 1, total_earnings = 0\<rparr>
   \<and> transactions (snd (RecordWithdrawal rich_db 1 10000000000000002 None None None)) =
       [\<lparr>txn_id = 100, txn_user = 1, txn_type = withdrawal,
         txn_amount = 10000000000000002,
         txn_description = ''Withdrawal to external wallet'', txn_hash = None,
         txn_status = confirmed\<rparr>]"
proof -
  have check: "withdrawal_check rich_db 1 10000000000000002 = None"
    by (simp add: withdrawal_check_def rich_db_user tie_at_ten_billion del: One_nat_def)
  have run: "RecordWithdrawal rich_db 1 10000000000000002 None None None =
      (Inr \<lparr>txn_id = 100, txn_user = 1, txn_type = withdrawal,
            txn_amount = 10000000000000002,
            txn_description = ''Withdrawal to external wallet'', txn_hash = None,
            txn_status = confirmed\<rparr>,
       rich_db\<lparr>transactions := [\<lparr>txn_id = 100, txn_user = 1, txn_type = withdrawal,
            txn_amount = 10000000000000002,
            txn_description = ''Withdrawal to external wallet'', txn_hash = None,
            txn_status = confirmed\<rparr>], next_id := 101,
         users := (users rich_db)(1 \<mapsto> \<lparr>total_balance = - 1, total_earnings = 0\<rparr>)\<rparr>)"
    by (simp add: RecordWithdrawal_def RecordWithdrawal_tx_def check withdrawal_write_def
        transactional_def js_number_nonpos_iff rich_db_user fits_decimal_def varchar_ok_def
        js_or_null_def js_or_def Let_def del: One_nat_def)
  show ?thesis
    unfolding run by (simp add: rich_db_user tie_at_ten_billion del: One_nat_def)
qed




subsection \<open>Withdrawals in flight together\<close>

text \<open>A request that runs alone through its two steps is the handler.\<close>

lemma schedule_alone:
  "run_schedule d [(r, AtCheck)] [0, 0] =
     (snd (RecordWithdrawal d (wr_user r) (wr_amount r) (wr_description r) (wr_hash r)
             (wr_address r)),
      [(r, Answered (fst (RecordWithdrawal d (wr_user r) (wr_amount r) (wr_description r)
                            (wr_hash r) (wr_address r))))])"
  by (simp add: advance_def RecordWithdrawal_def RecordWithdrawal_tx_def transactional_def
      split: option.splits sum.splits)

text \<open>
  C9 does not hold of the handler. The sample user has 1000.000000 and two requests for
  1000.000000 are in flight. Both run their check on the committed balance of
  1000.000000 and pass; then both write. Both are answered with success, the ledger has
  two withdrawal rows and the balance is -1000.000000, where C9 has one success, one
  \<open>InsufficientBalanceError\<close> and a balance of 0.
\<close>

theorem concurrent_withdrawals_both_commit:
  "users sample_db 1 = Some \<lparr>total_balance = 1000000000, total_earnings = 0\<rparr>
   \<and> wr_amount whole_balance_request = 1000000000
   \<and> map snd (snd raced) =
       [Answered (Inr \<lparr>txn_id = 100, txn_user = 1, txn_type = withdrawal,
                       txn_amount = 1000000000,
                       txn_description = ''Withdrawal to external wallet'',
                       txn_hash = None, txn_status = confirmed\<rparr>),
        Answered (Inr \<lparr>txn_id = 101, txn_user = 1, txn_type = withdrawal,
                       txn_amount = 1000000000,
                       txn_description = ''Withdrawal to external wallet'',
                       txn_hash = None, txn_status = confirmed\<rparr>)]
   \<and> users (fst raced) 1 = Some \<lparr>total_balance = - 1000000000, total_earnings = 0\<rparr>
   \<and> map txn_amount (transactions (fst raced)) = [1000000000, 1000000000]"
proof -
  let ?t0 = "\<lparr>txn_id = 100, txn_user = 1, txn_type = withdrawal, txn_amount = 1000000000,
      txn_description = ''Withdrawal to external wallet'', txn_hash = None,
      txn_status = confirmed\<rparr>"
  let ?t1 = "\<lparr>txn_id = 101, txn_user = 1, txn_type = withdrawal, txn_amount = 1000000000,
      txn_description = ''Withdrawal to external wallet'', txn_hash = None,
      txn_status = confirmed\<rparr>"
  let ?r = whole_balance_request
  have u: "users sample_db 1 = Some \<lparr>total_balance = 1000000000, total_earnings = 0\<rparr>"
    by (simp add: sample_db_def sample_user_def)
  have amt: "wr_amount ?r = 1000000000" "wr_user ?r = 1" "wr_description ?r = None"
    "wr_hash ?r = None" "wr_address ?r = None"
    by (simp_all add: whole_balance_request_def)
  have check: "withdrawal_check sample_db 1 1000000000 = None"
    by (simp add: withdrawal_check_def u js_number_parseFloat del: One_nat_def)
  have c: "advance sample_db (?r, AtCheck) = (sample_db, (?r, AtWrite))"
    by (simp add: advance_def amt check js_number_nonpos_iff del: One_nat_def)
  define d1 where "d1 = sample_db\<lparr>transactions := [?t0], next_id := 101,
      users := (users sample_db)(1 \<mapsto> \<lparr>total_balance = 0, total_earnings = 0\<rparr>)\<rparr>"
  define d2 where "d2 = d1\<lparr>transactions := [?t0, ?t1], next_id := 102,
      users := (users d1)(1 \<mapsto> \<lparr>total_balance = - 1000000000, total_earnings = 0\<rparr>)\<rparr>"
  have w1: "advance sample_db (?r, AtWrite) = (d1, (?r, Answered (Inr ?t0)))"
    by (simp add: advance_def amt withdrawal_write_def u fits_decimal_def varchar_ok_def
        js_or_null_def js_or_def Let_def d1_def sample_db_def sample_user_def
        del: One_nat_def)
  have u1: "users d1 1 = Some \<lparr>total_balance = 0, total_earnings = 0\<rparr>"
    "transactions d1 = [?t0]" "next_id d1 = 101"
    by (simp_all add: d1_def)
  have w2: "advance d1 (?r, AtWrite) = (d2, (?r, Answered (Inr ?t1)))"
    by (simp add: advance_def amt withdrawal_write_def u1 fits_decimal_def varchar_ok_def
        js_or_null_def js_or_def Let_def d2_def del: One_nat_def)
  have eq: "raced = (d2, [(?r, Answered (Inr ?t0)), (?r, Answered (Inr ?t1))])"
    by (simp add: raced_def c w1 w2)
  have "users d2 1 = Some \<lparr>total_balance = - 1000000000, total_earnings = 0\<rparr>"
    and "transactions d2 = [?t0, ?t1]"
    by (simp_all add: d2_def)
  then show ?thesis
    unfolding eq using u amt(1) by simp
qed

subsection \<open>Pool allocations\<close>

lemma sample_daily_earnings:
  "js_daily_earnings 100000000 10000000 = 27397"
  "js_daily_earnings 50000000 12000000 = 16438"
  by code_simp+

lemma sample_credit: "js_text (parseFloat 100000000) = 100"
  by code_simp

lemma upsert_conflict_raises:
  assumes "find (conflicts userId e) rows = Some r"
  shows "upsert_pool_allocation fresh userId e rows = Inl StoreError"
  using assms by (simp add: upsert_pool_allocation_def)

lemma merge_raises:
  assumes "find (conflicts userId e) (pool_allocations d) = Some r"
  shows "\<exists>err. Allocate d userId depositId depositAmount (e # rest) userMode = (Inl err, d)"
  using upsert_conflict_raises [OF assms, of "next_id d"]
  by (simp add: Allocate_def Allocate_tx_def transactional_def)

lemma allocate_loop_frame:
  "allocate_loop userId es d acc = Inr (rows, d') \<Longrightarrow>
     users d' = users d \<and> deposits d' = deposits d \<and> transactions d' = transactions d
     \<and> allocation_history d' = allocation_history d"
proof (induction es arbitrary: d acc)
  case Nil
  then show ?case by simp
next
  case (Cons e es)
  have ok: "users d userId \<noteq> None"
    using Cons.prems by (auto split: if_splits)
  obtain rows1 r where u: "upsert_pool_allocation (next_id d) userId e (pool_allocations d)
      = Inr (rows1, r)"
    using Cons.prems ok by (auto split: sum.splits)
  have "allocate_loop userId es (d\<lparr>pool_allocations := rows1, next_id := next_id d + 1\<rparr>)
          (acc @ [r]) = Inr (rows, d')"
    using Cons.prems ok u by simp
  from Cons.IH [OF this] show ?case by simp
qed

lemma Allocate_tx_users:
  assumes "Allocate_tx d userId depositId depositAmount es mode = Inr (rows, d1)"
  shows "users d1 = users d"
proof -
  obtain rows0 d0 where l: "allocate_loop userId es d [] = Inr (rows0, d0)"
    using assms by (auto simp: Allocate_tx_def split: sum.splits)
  have "users d1 = users d0"
    using assms l by (auto simp: Allocate_tx_def split: if_splits)
  then show ?thesis using allocate_loop_frame [OF l] by simp
qed

lemma Allocate_keeps_users:
  "users (snd (Allocate d userId depositId depositAmount es mode)) = users d"
proof (cases "Allocate_tx d userId depositId depositAmount es mode")
  case (Inl e)
  then show ?thesis by (simp add: Allocate_def transactional_def)
next
  case (Inr p)
  obtain rows d1 where p: "p = (rows, d1)" by (cases p)
  show ?thesis
    using Allocate_tx_users [of d userId depositId depositAmount es mode rows d1] Inr p
    by (simp add: Allocate_def transactional_def)
qed

lemmas allocate_eval =
  Allocate_def Allocate_tx_def transactional_def valid_user_mode_def valid_pool_type_def
  upsert_pool_allocation_def aave_entry_def conflicts_def js_or_null_def varchar_ok_def
  fits_decimal_def sample_daily_earnings Let_def

lemma allocated_db_result:
  "Allocate sample_db 1 None 100000000 [aave_entry 100000000 10000000] ''lite'' =
     (Inr [\<lparr>alloc_id = 100, alloc_user = 1, pool_type = ''lending'',
            protocol_id = ''aave-v3-usdc'', protocol_name = ''Aave V3'',
            protocol_address = None, amount_allocated = 100000000,
            current_apy = 10000000, alloc_total_earnings = 0, daily_earnings = 27397\<rparr>],
      allocated_db)"
  "pool_allocations allocated_db =
     [\<lparr>alloc_id = 100, alloc_user = 1, pool_type = ''lending'',
       protocol_id = ''aave-v3-usdc'', protocol_name = ''Aave V3'',
       protocol_address = None, amount_allocated = 100000000,
       current_apy = 10000000, alloc_total_earnings = 0, daily_earnings = 27397\<rparr>]"
  "users allocated_db = users sample_db"
  "deposits allocated_db = []"
  "next_id allocated_db = 101"
  by (simp_all add: allocated_db_def allocate_eval sample_db_def)

lemma deallocated_db_result:
  "Deallocate allocated_db 1 100 =
     (Inr \<lparr>alloc_id = 100, alloc_user = 1, pool_type = ''lending'',
            protocol_id = ''aave-v3-usdc'', protocol_name = ''Aave V3'',
            protocol_address = None, amount_allocated = 100000000,
            current_apy = 10000000, alloc_total_earnings = 0, daily_earnings = 27397\<rparr>,
      deallocated_db)"
  "pool_allocations deallocated_db = []"
  "users deallocated_db 1 = Some \<lparr>total_balance = 1100000000, total_earnings = 0\<rparr>"
proof -
  have credit: "to_decimal6 (of_decimal6 1000000000 + 100) = 1100000000"
    by code_simp
  show "Deallocate allocated_db 1 100 =
     (Inr \<lparr>alloc_id = 100, alloc_user = 1, pool_type = ''lending'',
            protocol_id = ''aave-v3-usdc'', protocol_name = ''Aave V3'',
            protocol_address = None, amount_allocated = 100000000,
            current_apy = 10000000, alloc_total_earnings = 0, daily_earnings = 27397\<rparr>,
      deallocated_db)"
    "pool_allocations deallocated_db = []"
    "users deallocated_db 1 = Some \<lparr>total_balance = 1100000000, total_earnings = 0\<rparr>"
    by (simp_all add: deallocated_db_def Deallocate_def Deallocate_tx_def transactional_def
        allocated_db_result sample_db_def sample_user_def Let_def sample_credit credit
        fits_decimal_def)
qed

text \<open>
  C1 does not hold of the handlers. The sample user has 1000.000000; allocating
  100.000000 leaves the balance at 1000.000000, and removing that allocation raises it
  to 1100.000000.
\<close>

theorem allocate_then_deallocate_credits_balance:
  "users sample_db 1 = Some \<lparr>total_balance = 1000000000, total_earnings = 0\<rparr>
   \<and> fst (Allocate sample_db 1 None 100000000 [aave_entry 100000000 10000000] ''lite'')
       = Inr (pool_allocations allocated_db)
   \<and> map alloc_id (pool_allocations allocated_db) = [100]
   \<and> map amount_allocated (pool_allocations allocated_db) = [100000000]
   \<and> users allocated_db 1 = Some \<lparr>total_balance = 1000000000, total_earnings = 0\<rparr>
   \<and> fst (Deallocate allocated_db 1 100) = Inr (hd (pool_allocations allocated_db))
   \<and> pool_allocations deallocated_db = []
   \<and> users deallocated_db 1 = Some \<lparr>total_balance = 1100000000, total_earnings = 0\<rparr>"
proof -
  have before: "users sample_db 1 = Some \<lparr>total_balance = 1000000000, total_earnings = 0\<rparr>"
    by (simp add: sample_db_def sample_user_def)
  have mid: "users allocated_db 1 = Some \<lparr>total_balance = 1000000000, total_earnings = 0\<rparr>"
    using before by (simp only: allocated_db_result)
  have runs: "fst (Allocate sample_db 1 None 100000000 [aave_entry 100000000 10000000] ''lite'')
       = Inr (pool_allocations allocated_db)
   \<and> map alloc_id (pool_allocations allocated_db) = [100]
   \<and> map amount_allocated (pool_allocations allocated_db) = [100000000]
   \<and> fst (Deallocate allocated_db 1 100) = Inr (hd (pool_allocations allocated_db))
   \<and> pool_allocations deallocated_db = []
   \<and> users deallocated_db 1 = Some \<lparr>total_balance = 1100000000, total_earnings = 0\<rparr>"
    by (simp add: allocated_db_result deallocated_db_result del: One_nat_def)
  from before mid runs show ?thesis by blast
qed

text \<open>
  C7 does not hold of the handler. After 100.000000 at 10 percent is allocated, the row
  is (100.000000, 10.000000, 0.027397). The request for 50.000000 more at 12 percent
  meets that row, the \<^verbatim>\<open>DO UPDATE\<close> raises in the trigger of the table, and the request
  is rolled back with \<open>StoreError\<close>: the row is not merged to (150, 12, ...).
\<close>

theorem allocation_merge_raises:
  "map amount_allocated (pool_allocations allocated_db) = [100000000]
   \<and> map current_apy (pool_allocations allocated_db) = [10000000]
   \<and> map daily_earnings (pool_allocations allocated_db) = [27397]
   \<and> conflicts 1 (aave_entry 50000000 12000000) (hd (pool_allocations allocated_db))
   \<and> Allocate allocated_db 1 None 50000000 [aave_entry 50000000 12000000] ''lite''
       = (Inl StoreError, allocated_db)"
proof -
  have rows: "map amount_allocated (pool_allocations allocated_db) = [100000000]
   \<and> map current_apy (pool_allocations allocated_db) = [10000000]
   \<and> map daily_earnings (pool_allocations allocated_db) = [27397]
   \<and> conflicts 1 (aave_entry 50000000 12000000) (hd (pool_allocations allocated_db))"
    by (simp add: allocated_db_result conflicts_def aave_entry_def)
  have u: "users allocated_db 1 = Some sample_user"
    by (simp add: allocated_db_result sample_db_def)
  have "Allocate allocated_db 1 None 50000000 [aave_entry 50000000 12000000] ''lite''
       = (Inl StoreError, allocated_db)"
    by (simp add: allocate_eval allocated_db_result(2) u del: One_nat_def)
  with rows show ?thesis by blast
qed

subsection \<open>APY cache\<close>

lemma getProtocolAPY_hit:
  assumes "apyCache st pid = Some e" and "now - entry_timestamp e < CACHE_DURATION"
  shows "getProtocolAPY st now w pid = (entry_apy e, st)"
  using assms by (simp add: getProtocolAPY_def)

lemma getProtocolAPY_miss:
  assumes "apyCache st pid = None \<or>
           (\<exists>e. apyCache st pid = Some e \<and> CACHE_DURATION \<le> now - entry_timestamp e)"
  shows "getProtocolAPY st now w pid =
           (fetch_switch w pid,
            st\<lparr>apyCache := (apyCache st)(pid \<mapsto>
                   \<lparr>entry_apy = fetch_switch w pid, entry_timestamp = stored_at w\<rparr>),
               fetched := fetched st @ [pid]\<rparr>)"
  using assms by (auto simp: getProtocolAPY_def Let_def)

lemma getProtocolAPY_caches:
  "\<exists>e. apyCache (snd (getProtocolAPY st now w pid)) pid = Some e
       \<and> entry_apy e = fst (getProtocolAPY st now w pid)"
  by (auto simp: getProtocolAPY_def Let_def split: option.splits)

text \<open>
  C8. \<open>CACHE_DURATION\<close> is 10 minutes in milliseconds. After any call for a protocol the
  cache holds an entry for it whose value is the value returned. A second call whose
  clock reading is less than 10 minutes after that entry's timestamp returns the same
  value and leaves the state unchanged, the list of fetcher runs included; a second
  call 10 minutes or more after the timestamp runs the fetcher, returns its value and
  stores it with the clock reading taken at the store.
\<close>

theorem apy_cache_window:
  "CACHE_DURATION = 600000
   \<and> (\<exists>v1 st1 e.
         getProtocolAPY st now1 w1 pid = (v1, st1)
       \<and> apyCache st1 pid = Some e \<and> entry_apy e = v1
       \<and> (\<forall>now2 w2.
             (now2 - entry_timestamp e < 600000 \<longrightarrow>
                getProtocolAPY st1 now2 w2 pid = (v1, st1))
           \<and> (600000 \<le> now2 - entry_timestamp e \<longrightarrow>
                getProtocolAPY st1 now2 w2 pid =
                  (fetch_switch w2 pid,
                   st1\<lparr>apyCache := (apyCache st1)(pid \<mapsto>
                          \<lparr>entry_apy = fetch_switch w2 pid, entry_timestamp = stored_at w2\<rparr>),
                       fetched := fetched st1 @ [pid]\<rparr>))))"
proof -
  have dur: "CACHE_DURATION = 600000" by (simp add: CACHE_DURATION_def)
  obtain v1 st1 where r: "getProtocolAPY st now1 w1 pid = (v1, st1)"
    by (cases "getProtocolAPY st now1 w1 pid")
  obtain e where e: "apyCache st1 pid = Some e" and v: "entry_apy e = v1"
    using getProtocolAPY_caches [of st now1 w1 pid] r by auto
  have hit: "getProtocolAPY st1 now2 w2 pid = (v1, st1)"
    if "now2 - entry_timestamp e < 600000" for now2 w2
    using getProtocolAPY_hit [OF e, of now2 w2] that v dur by simp
  have miss: "getProtocolAPY st1 now2 w2 pid =
                  (fetch_switch w2 pid,
                   st1\<lparr>apyCache := (apyCache st1)(pid \<mapsto>
                          \<lparr>entry_apy = fetch_switch w2 pid, entry_timestamp = stored_at w2\<rparr>),
                       fetched := fetched st1 @ [pid]\<rparr>)"
    if "600000 \<le> now2 - entry_timestamp e" for now2 w2
    using getProtocolAPY_miss [of st1 pid now2 w2] e that dur by simp
  from dur r e v hit miss show ?thesis by blast
qed

lemma first_fetch:
  "getProtocolAPY empty_cache 1000 outside1 ''aave-v3-usdc'' =
     (11, \<lparr>apyCache = [''aave-v3-usdc'' \<mapsto> \<lparr>entry_apy = 11, entry_timestamp = 1000\<rparr>],
           fetched = [''aave-v3-usdc'']\<rparr>)"
  by (simp add: getProtocolAPY_def empty_cache_def outside1_def fetch_switch_def fetchAaveAPY_def)

text \<open>
  C8, witness: a first call at time 1000 fetches 11; a call at 600999 is served from the
  cache; a call at 601000 fetches again (9) and stores it with the new clock reading.
\<close>

theorem apy_cache_window_witness:
  "getProtocolAPY empty_cache 1000 outside1 ''aave-v3-usdc'' =
     (11, \<lparr>apyCache = [''aave-v3-usdc'' \<mapsto> \<lparr>entry_apy = 11, entry_timestamp = 1000\<rparr>],
           fetched = [''aave-v3-usdc'']\<rparr>)
   \<and> (600999 :: int) - 1000 < 600000
   \<and> getProtocolAPY
        \<lparr>apyCache = [''aave-v3-usdc'' \<mapsto> \<lparr>entry_apy = 11, entry_timestamp = 1000\<rparr>],
         fetched = [''aave-v3-usdc'']\<rparr> 600999 outside2 ''aave-v3-usdc'' =
     (11, \<lparr>apyCache = [''aave-v3-usdc'' \<mapsto> \<lparr>entry_apy = 11, entry_timestamp = 1000\<rparr>],
           fetched = [''aave-v3-usdc'']\<rparr>)
   \<and> (600000 :: int) \<le> 601000 - 1000
   \<and> getProtocolAPY
        \<lparr>apyCache = [''aave-v3-usdc'' \<mapsto> \<lparr>entry_apy = 11, entry_timestamp = 1000\<rparr>],
         fetched = [''aave-v3-usdc'']\<rparr> 601000 outside2 ''aave-v3-usdc'' =
     (9, \<lparr>apyCache = [''aave-v3-usdc'' \<mapsto> \<lparr>entry_apy = 9, entry_timestamp = 601005\<rparr>],
          fetched = [''aave-v3-usdc'', ''aave-v3-usdc'']\<rparr>)"
proof -
  let ?st1 = "\<lparr>apyCache = [''aave-v3-usdc'' \<mapsto> \<lparr>entry_apy = 11, entry_timestamp = 1000\<rparr>],
           fetched = [''aave-v3-usdc'']\<rparr>"
  from apy_cache_window [of empty_cache 1000 outside1 "''aave-v3-usdc''"]
  obtain v1 st1 e where r: "getProtocolAPY empty_cache 1000 outside1 ''aave-v3-usdc'' = (v1, st1)"
    and e: "apyCache st1 ''aave-v3-usdc'' = Some e" and v: "entry_apy e = v1"
    and w: "\<forall>now2 w2.
             (now2 - entry_timestamp e < 600000 \<longrightarrow>
                getProtocolAPY st1 now2 w2 ''aave-v3-usdc'' = (v1, st1))
           \<and> (600000 \<le> now2 - entry_timestamp e \<longrightarrow>
                getProtocolAPY st1 now2 w2 ''aave-v3-usdc'' =
                  (fetch_switch w2 ''aave-v3-usdc'',
                   st1\<lparr>apyCache := (apyCache st1)(''aave-v3-usdc'' \<mapsto>
                          \<lparr>entry_apy = fetch_switch w2 ''aave-v3-usdc'',
                           entry_timestamp = stored_at w2\<rparr>),
                       fetched := fetched st1 @ [''aave-v3-usdc'']\<rparr>))"
    by blast
  have v1: "v1 = 11" and st1: "st1 = ?st1" using r first_fetch by simp_all
  have ts: "entry_timestamp e = 1000" using e st1 by auto
  have a: "(600999 :: int) - 1000 < 600000" and b: "(600000 :: int) \<le> 601000 - 1000"
    by simp_all
  have hit: "getProtocolAPY ?st1 600999 outside2 ''aave-v3-usdc'' = (11, ?st1)"
    using w a ts v1 st1 by simp
  have "getProtocolAPY st1 601000 outside2 ''aave-v3-usdc'' =
                  (fetch_switch outside2 ''aave-v3-usdc'',
                   st1\<lparr>apyCache := (apyCache st1)(''aave-v3-usdc'' \<mapsto>
                          \<lparr>entry_apy = fetch_switch outside2 ''aave-v3-usdc'',
                           entry_timestamp = stored_at outside2\<rparr>),
                       fetched := fetched st1 @ [''aave-v3-usdc'']\<rparr>)"
    using w b ts by simp
  then have miss: "getProtocolAPY ?st1 601000 outside2 ''aave-v3-usdc'' =
     (9, \<lparr>apyCache = [''aave-v3-usdc'' \<mapsto> \<lparr>entry_apy = 9, entry_timestamp = 601005\<rparr>],
          fetched = [''aave-v3-usdc'', ''aave-v3-usdc'']\<rparr>)"
    unfolding st1 by (simp add: fetch_switch_def fetchAaveAPY_def outside2_def)
  from first_fetch a hit b miss show ?thesis by blast
qed

end
